theory Spec2Isabelle
  imports Complex_Main "HOL-Library.Sublist"
begin

section \<open>Strings\<close>

text \<open>
  Python strings are modelled as \<open>string\<close> (lists of 8-bit characters). The source only
  ever lower-cases text and looks for ASCII keywords in it, so \<open>lower\<close> maps the letters
  \<open>A\<close>..\<open>Z\<close> to \<open>a\<close>..\<open>z\<close> and leaves every other character alone.
  \<open>sub in s\<close> is \<open>sublist sub s\<close>, \<open>s.startswith(p)\<close> is \<open>prefix p s\<close>.
\<close>

definition lower_char :: "char \<Rightarrow> char" where
  "lower_char c =
     (let n = (of_char c :: nat) in if 65 \<le> n \<and> n \<le> 90 then char_of (n + 32) else c)"

definition lower :: "string \<Rightarrow> string" where
  "lower s = map lower_char s"

definition contains :: "string \<Rightarrow> string \<Rightarrow> bool" where
  "contains s sub = sublist sub s"

definition any_in :: "string list \<Rightarrow> string \<Rightarrow> bool" where
  "any_in words s = list_ex (\<lambda>word. contains s word) words"

fun join :: "string \<Rightarrow> string list \<Rightarrow> string" where
  "join sep [] = []"
| "join sep [x] = x"
| "join sep (x # y # ys) = x @ sep @ join sep (y # ys)"

definition last_n :: "nat \<Rightarrow> 'a list \<Rightarrow> 'a list" where
  "last_n n xs = drop (length xs - n) xs"

section \<open>Chat messages\<close>

record ChatMessage =
  sender :: string
  content :: string

section \<open>Phase classification (EnhancedAIService._determine_phase)\<close>


section \<open>Tactic selection (NegotiationStrategyTool._run)\<close>

record strategy_result =
  strategy :: string
  tactics :: "string list"
  urgency :: bool
  flexibility :: bool
  recommended_approach :: string

definition urgency_indicators :: "string list" where
  "urgency_indicators = [''final'', ''last'', ''deadline'', ''urgent'', ''today only'']"

definition flexibility_indicators :: "string list" where
  "flexibility_indicators = [''consider'', ''negotiate'', ''discuss'', ''flexible'']"

definition gap_tactics :: "int \<Rightarrow> string \<times> string list" where
  "gap_tactics price_difference =
     (if price_difference > 30
        then (''aggressive_negotiation'',
              [''anchoring'', ''alternative_options'', ''market_comparison''])
      else if price_difference > 15
        then (''collaborative_negotiation'',
              [''reciprocal_concessions'', ''value_proposition'', ''rapport_building''])
      else (''closing_negotiation'',
              [''final_offer'', ''commitment_seeking'', ''minor_concessions'']))"

definition NegotiationStrategyTool_run :: "string \<Rightarrow> string \<Rightarrow> int \<Rightarrow> strategy_result" where
  "NegotiationStrategyTool_run seller_message negotiation_phase price_difference =
     (let seller_lower = lower seller_message;
          is_urgent = any_in urgency_indicators seller_lower;
          is_flexible = any_in flexibility_indicators seller_lower;
          (strategy0, tactics0) = gap_tactics price_difference;
          tactics1 = (if is_urgent then tactics0 @ [''deadline_leverage''] else tactics0);
          tactics2 = (if is_flexible then tactics1 @ [''creative_solutions''] else tactics1)
      in \<lparr> strategy = strategy0,
           tactics = tactics2,
           urgency = is_urgent,
           flexibility = is_flexible,
           recommended_approach =
             ''Use '' @ strategy0 @ '' with focus on '' @ join '', '' (take 2 tactics2) \<rparr>)"

section \<open>Python numbers\<close>

text \<open>
  Python integers are unbounded: \<open>int\<close>. Python floats are IEEE 754 binary64 values.
  A finite float is written \<open>Finite m e\<close> and stands for \<open>m * 2 ^ e\<close>; every operation
  rounds its exact result to the nearest representable value, ties to the even mantissa
  (53 bits, smallest quantum \<open>2 ^ - 1074\<close>), and a result of magnitude \<open>2 ^ 1024\<close> or more
  overflows. The sign of zero is not recorded: no operation of the source observes it.
\<close>

datatype py_error = OverflowError | ZeroDivisionError | ValueError

datatype pyfloat = Finite int int | PosInf | NegInf | NaN

definition bind :: "py_error + 'a \<Rightarrow> ('a \<Rightarrow> py_error + 'b) \<Rightarrow> py_error + 'b" where
  "bind r f = (case r of Inl err \<Rightarrow> Inl err | Inr x \<Rightarrow> f x)"

function bit_length :: "int \<Rightarrow> int" where
  "bit_length n = (if n \<le> 0 then 0 else 1 + bit_length (n div 2))"
  by pat_completeness auto
termination
  by (relation "measure nat") auto

text \<open>\<open>round_half_even a b\<close>: the integer nearest to \<open>a / b\<close> (for \<open>0 \<le> a\<close>, \<open>0 < b\<close>).\<close>

definition round_half_even :: "int \<Rightarrow> int \<Rightarrow> int" where
  "round_half_even a b =
     (let q = a div b; r = a mod b
      in if 2 * r < b then q else if b < 2 * r then q + 1 else if even q then q else q + 1)"

text \<open>\<open>float_exponent a b\<close>: the integer \<open>e\<close> with \<open>2 ^ e \<le> a / b < 2 ^ (e + 1)\<close> (for \<open>0 < a\<close>, \<open>0 < b\<close>).\<close>

definition float_exponent :: "int \<Rightarrow> int \<Rightarrow> int" where
  "float_exponent a b =
     (let d = bit_length a - bit_length b
      in if b * 2 ^ nat d \<le> a * 2 ^ nat (- d) then d else d - 1)"

text \<open>\<open>round_to_double a b\<close>: the float nearest to the rational \<open>a / b\<close> (for \<open>0 < b\<close>).\<close>

definition round_to_double :: "int \<Rightarrow> int \<Rightarrow> pyfloat" where
  "round_to_double a b =
     (if a = 0 then Finite 0 0
      else
        let e = float_exponent \<bar>a\<bar> b;
            p = max (e - 52) (- 1074);
            m = round_half_even (\<bar>a\<bar> * 2 ^ nat (- p)) (b * 2 ^ nat p)
        in if 0 \<le> p \<and> 2 ^ 1024 \<le> m * 2 ^ nat p
             then (if 0 < a then PosInf else NegInf)
           else Finite (sgn a * m) p)"

text \<open>A decimal literal of the source, such as \<open>1.1\<close>, is the float nearest to \<open>11 / 10\<close>.\<close>

definition literal :: "int \<Rightarrow> int \<Rightarrow> pyfloat" where
  "literal a b = round_to_double a b"

text \<open>Conversion of an integer operand: \<open>OverflowError\<close> when it does not fit.\<close>

definition float_of_int :: "int \<Rightarrow> py_error + pyfloat" where
  "float_of_int n =
     (case round_to_double n 1 of
        Finite m e \<Rightarrow> Inr (Finite m e)
      | _ \<Rightarrow> Inl OverflowError)"

fun float_mul :: "pyfloat \<Rightarrow> pyfloat \<Rightarrow> pyfloat" where
  "float_mul (Finite m1 e1) (Finite m2 e2) =
     round_to_double (m1 * m2 * 2 ^ nat (e1 + e2)) (2 ^ nat (- (e1 + e2)))"
| "float_mul (Finite m e) PosInf = (if m = 0 then NaN else if 0 < m then PosInf else NegInf)"
| "float_mul (Finite m e) NegInf = (if m = 0 then NaN else if 0 < m then NegInf else PosInf)"
| "float_mul PosInf (Finite m e) = (if m = 0 then NaN else if 0 < m then PosInf else NegInf)"
| "float_mul NegInf (Finite m e) = (if m = 0 then NaN else if 0 < m then NegInf else PosInf)"
| "float_mul PosInf PosInf = PosInf"
| "float_mul PosInf NegInf = NegInf"
| "float_mul NegInf PosInf = NegInf"
| "float_mul NegInf NegInf = PosInf"
| "float_mul NaN y = NaN"
| "float_mul x NaN = NaN"

fun float_less :: "pyfloat \<Rightarrow> pyfloat \<Rightarrow> bool" where
  "float_less (Finite m1 e1) (Finite m2 e2) =
     (m1 * 2 ^ nat (e1 - e2) < m2 * 2 ^ nat (e2 - e1))"
| "float_less NaN y = False"
| "float_less x NaN = False"
| "float_less PosInf y = False"
| "float_less x NegInf = False"
| "float_less x PosInf = True"
| "float_less NegInf y = True"

text \<open>\<open>min(x, y)\<close> and \<open>max(x, y)\<close> keep the first argument unless the second is strictly better.\<close>

definition float_min :: "pyfloat \<Rightarrow> pyfloat \<Rightarrow> pyfloat" where
  "float_min x y = (if float_less y x then y else x)"

definition float_max :: "pyfloat \<Rightarrow> pyfloat \<Rightarrow> pyfloat" where
  "float_max x y = (if float_less x y then y else x)"

text \<open>\<open>int(x)\<close> truncates towards zero; it raises on an infinity or a NaN.\<close>

fun int_of_float :: "pyfloat \<Rightarrow> py_error + int" where
  "int_of_float (Finite m e) =
     Inr (if 0 \<le> e then m * 2 ^ nat e else sgn m * (\<bar>m\<bar> div 2 ^ nat (- e)))"
| "int_of_float PosInf = Inl OverflowError"
| "int_of_float NegInf = Inl OverflowError"
| "int_of_float NaN = Inl ValueError"

text \<open>\<open>n * c\<close> for an integer \<open>n\<close> and a float \<open>c\<close>: the integer is converted first.\<close>

definition int_mul_float :: "int \<Rightarrow> pyfloat \<Rightarrow> py_error + pyfloat" where
  "int_mul_float n c = bind (float_of_int n) (\<lambda>x. Inr (float_mul x c))"

text \<open>\<open>a / b\<close> for integers: the correctly rounded quotient.\<close>

definition int_truediv :: "int \<Rightarrow> int \<Rightarrow> py_error + pyfloat" where
  "int_truediv a b =
     (if b = 0 then Inl ZeroDivisionError
      else case round_to_double (a * sgn b) \<bar>b\<bar> of
             Finite m e \<Rightarrow> Inr (Finite m e)
           | _ \<Rightarrow> Inl OverflowError)"

text \<open>Comparison of an integer with a float is exact in Python.\<close>

definition int_le_float :: "int \<Rightarrow> pyfloat \<Rightarrow> bool" where
  "int_le_float n x = (\<not> float_less x (Finite n 0) \<and> x \<noteq> NaN)"

section \<open>Offer strategy (PriceCalculatorTool._run)\<close>

text \<open>
  The tool answers with a JSON text holding \<open>suggested_offer\<close> (and three constant or
  descriptive fields), or with the text \<open>Price calculation failed\<close> when the
  computation raised.
\<close>

datatype calc_result = SuggestedOffer int | CalculationFailed

definition raw_offer :: "int \<Rightarrow> int \<Rightarrow> int \<Rightarrow> int \<Rightarrow> py_error + int" where
  "raw_offer current_price target_price max_budget negotiation_round =
     (if negotiation_round \<le> 2
        then bind (int_mul_float target_price (literal 11 10)) int_of_float
      else if negotiation_round \<le> 4
        then bind (int_mul_float (target_price + current_price) (literal 6 10)) int_of_float
      else bind (int_mul_float max_budget (literal 95 100)) (\<lambda>x.
           bind (int_mul_float (target_price + current_price) (literal 7 10)) (\<lambda>y.
           int_of_float (float_min x y))))"

definition PriceCalculatorTool_run :: "int \<Rightarrow> int \<Rightarrow> int \<Rightarrow> int \<Rightarrow> calc_result" where
  "PriceCalculatorTool_run current_price target_price max_budget negotiation_round =
     (case raw_offer current_price target_price max_budget negotiation_round of
        Inl err \<Rightarrow> CalculationFailed
      | Inr offer \<Rightarrow> SuggestedOffer (max target_price (min offer max_budget)))"

section \<open>Seller-behaviour analysis (LangChainNegotiationAgent.generate_negotiation_response)\<close>

text \<open>
  The analysis that \<open>generate_negotiation_response\<close> runs before it calls the agent: the
  last six messages are rendered as \<open>sender: content\<close>, and one loop over these lines
  collects the price mentions, the seller sentiment, the stage and the seller tactics.
  The stage is then overwritten from the number of lines that start with \<open>Seller:\<close>.
\<close>

record conversation_analysis =
  price_mentions :: "string list"
  seller_sentiment :: string
  negotiation_stage :: string
  seller_tactics :: "string list"

definition conversation_flow :: "ChatMessage list \<Rightarrow> string list" where
  "conversation_flow chat_history =
     map (\<lambda>msg. sender msg @ '': '' @ content msg) (last_n 6 chat_history)"

text \<open>The rupee sign is the three bytes \<open>E2 82 B9\<close> of its UTF-8 encoding.\<close>

definition price_words :: "string list" where
  "price_words =
     [[char_of (226 :: nat), char_of (130 :: nat), char_of (185 :: nat)],
      ''rupees'', ''price'', ''cost'', ''budget'']"

definition rejection_words :: "string list" where
  "rejection_words =
     [''no'', ''can'' @ [char_of (39 :: nat)] @ ''t'', ''impossible'', ''too low'', ''minimum'',
      ''sorry'']"

definition acceptance_words :: "string list" where
  "acceptance_words = [''okay'', ''yes'', ''agreed'', ''fine'', ''deal'', ''accept'']"

definition consideration_words :: "string list" where
  "consideration_words = [''maybe'', ''consider'', ''think'', ''possible'', ''let me'']"

definition ultimatum_words :: "string list" where
  "ultimatum_words = [''final'', ''last'', ''best'', ''lowest'']"

definition counter_words :: "string list" where
  "counter_words = [''counter'', ''what about'', ''how about'']"

definition analyze_message :: "conversation_analysis \<Rightarrow> string \<Rightarrow> conversation_analysis" where
  "analyze_message st msg =
     (let st1 = (if any_in price_words (lower msg)
                   then st\<lparr>price_mentions := price_mentions st @ [msg]\<rparr> else st)
      in if prefix ''Seller:'' msg then
           (let content_lower = lower msg
            in if any_in rejection_words content_lower
                 then st1\<lparr>seller_sentiment := ''resistant'',
                          seller_tactics := seller_tactics st1 @ [''rejection'']\<rparr>
               else if any_in acceptance_words content_lower
                 then st1\<lparr>seller_sentiment := ''agreeable'',
                          seller_tactics := seller_tactics st1 @ [''acceptance'']\<rparr>
               else if any_in consideration_words content_lower
                 then st1\<lparr>seller_sentiment := ''open'',
                          seller_tactics := seller_tactics st1 @ [''consideration'']\<rparr>
               else if any_in ultimatum_words content_lower
                 then st1\<lparr>seller_tactics := seller_tactics st1 @ [''ultimatum''],
                          negotiation_stage := ''closing''\<rparr>
               else if any_in counter_words content_lower
                 then st1\<lparr>seller_tactics := seller_tactics st1 @ [''counter_offer'']\<rparr>
               else st1)
         else st1)"

definition initial_analysis :: conversation_analysis where
  "initial_analysis =
     \<lparr>price_mentions = [], seller_sentiment = ''neutral'', negotiation_stage = ''initial'',
      seller_tactics = []\<rparr>"

definition analyze_conversation :: "ChatMessage list \<Rightarrow> conversation_analysis" where
  "analyze_conversation chat_history =
     (let flow = conversation_flow chat_history;
          st = foldl analyze_message initial_analysis flow;
          seller_message_count = length (filter (prefix ''Seller:'') flow)
      in st\<lparr>negotiation_stage :=
              (if seller_message_count = 1 then ''opening''
               else if seller_message_count > 3 then ''advanced''
               else ''middle'')\<rparr>)"

text \<open>The seller message of the specification's third scenario.\<close>

definition firm_message :: string where
  "firm_message = ''Sorry, that'' @ [CHR 0x27] @ ''s too low, minimum is firm''"

section \<open>Session creation request (URLNegotiationRequest)\<close>


record URLNegotiationRequest =
  product_url :: string
  target_price :: int
  max_budget :: int
  approach :: string
  timeline :: string
  special_requirements :: "string option"





text \<open>\<open>within_pow2 x k\<close>: the float \<open>x\<close> is finite and its magnitude is at most \<open>2 ^ k\<close>.\<close>

definition within_pow2 :: "pyfloat \<Rightarrow> nat \<Rightarrow> bool" where
  "within_pow2 x k =
     (case x of
        Finite m e \<Rightarrow> \<bar>m\<bar> * 2 ^ nat e \<le> 2 ^ k * 2 ^ nat (- e)
      | _ \<Rightarrow> False)"

section \<open>More float operations\<close>

fun float_neg :: "pyfloat \<Rightarrow> pyfloat" where
  "float_neg (Finite m e) = Finite (- m) e"
| "float_neg PosInf = NegInf"
| "float_neg NegInf = PosInf"
| "float_neg NaN = NaN"

fun float_add :: "pyfloat \<Rightarrow> pyfloat \<Rightarrow> pyfloat" where
  "float_add (Finite m1 e1) (Finite m2 e2) =
     (let e = min e1 e2;
          s = m1 * 2 ^ nat (e1 - e) + m2 * 2 ^ nat (e2 - e)
      in round_to_double (s * 2 ^ nat e) (2 ^ nat (- e)))"
| "float_add NaN y = NaN"
| "float_add x NaN = NaN"
| "float_add PosInf NegInf = NaN"
| "float_add NegInf PosInf = NaN"
| "float_add PosInf y = PosInf"
| "float_add NegInf y = NegInf"
| "float_add x PosInf = PosInf"
| "float_add x NegInf = NegInf"

definition float_sub :: "pyfloat \<Rightarrow> pyfloat \<Rightarrow> pyfloat" where
  "float_sub x y = float_add x (float_neg y)"

text \<open>Float division raises \<open>ZeroDivisionError\<close> on a zero divisor.\<close>

fun float_div :: "pyfloat \<Rightarrow> pyfloat \<Rightarrow> py_error + pyfloat" where
  "float_div (Finite m1 e1) (Finite m2 e2) =
     (if m2 = 0 then Inl ZeroDivisionError
      else Inr (round_to_double (m1 * sgn m2 * 2 ^ nat (e1 - e2)) (\<bar>m2\<bar> * 2 ^ nat (e2 - e1))))"
| "float_div NaN y = Inr NaN"
| "float_div PosInf (Finite m e) =
     (if m = 0 then Inl ZeroDivisionError else Inr (if 0 < m then PosInf else NegInf))"
| "float_div NegInf (Finite m e) =
     (if m = 0 then Inl ZeroDivisionError else Inr (if 0 < m then NegInf else PosInf))"
| "float_div x NaN = Inr NaN"
| "float_div (Finite m e) y = Inr (Finite 0 0)"
| "float_div x y = Inr NaN"

section \<open>Deterministic fallback responses (GeminiOnlyService._get_fallback_response)\<close>

text \<open>
  Modelled from the spec: the enumeration \<open>NegotiationApproach\<close> of \<open>models.py\<close> is not
  part of the sources at hand; the specification gives its three values. A text that names
  none of them falls back to \<open>DIPLOMATIC\<close>, as the source does on \<open>ValueError\<close>.
\<close>

datatype NegotiationApproach = ASSERTIVE | DIPLOMATIC | CONSIDERATE

definition parse_approach :: "string \<Rightarrow> NegotiationApproach" where
  "parse_approach a =
     (if lower a = ''assertive'' then ASSERTIVE
      else if lower a = ''considerate'' then CONSIDERATE
      else DIPLOMATIC)"

text \<open>
  A fallback response is one of eight fixed texts, worded after the approach, with one
  number put into it. The texts that confirm an acceptance or arrange the pickup carry
  no number, and the text about the product condition is not a format string in the
  source, so it carries none either.
\<close>

datatype fallback_template =
  OpeningMessage | GreetingResponse | PriceResponse | RejectionResponse
  | AcceptanceResponse | LogisticsResponse | ConditionResponse | GeneralResponse

record fallback_response =
  template :: fallback_template
  wording :: NegotiationApproach
  quoted_offer :: "int option"

definition get_fallback_response ::
    "string \<Rightarrow> int \<Rightarrow> ChatMessage list \<Rightarrow> py_error + fallback_response" where
  "get_fallback_response approach_text target chat_history =
     (let approach_value = parse_approach approach_text;
          seller_messages = filter (\<lambda>msg. sender msg = ''seller'') chat_history
      in if seller_messages = []
           then Inr \<lparr>template = OpeningMessage, wording = approach_value,
                     quoted_offer = Some target\<rparr>
         else
           let last_message = lower (content (last seller_messages))
           in if any_in [''hi'', ''hello'', ''available''] last_message
                then Inr \<lparr>template = GreetingResponse, wording = approach_value,
                          quoted_offer = Some target\<rparr>
              else if any_in [''price'', ''cost'', ''amount''] last_message
                then Inr \<lparr>template = PriceResponse, wording = approach_value,
                          quoted_offer = Some target\<rparr>
              else if any_in [''no'', ''cannot'', ''firm'', ''minimum''] last_message
                then bind (bind (int_mul_float target (literal 115 100)) int_of_float)
                       (\<lambda>raised.
                          let counter_offer = min raised (target + 5000)
                          in Inr \<lparr>template = RejectionResponse, wording = approach_value,
                                   quoted_offer = Some counter_offer\<rparr>)
              else if any_in [''yes'', ''okay'', ''accept'', ''deal''] last_message
                then Inr \<lparr>template = AcceptanceResponse, wording = approach_value,
                          quoted_offer = None\<rparr>
              else if any_in [''meet'', ''pickup'', ''delivery''] last_message
                then Inr \<lparr>template = LogisticsResponse, wording = approach_value,
                          quoted_offer = None\<rparr>
              else if any_in [''condition'', ''working'', ''problem''] last_message
                then Inr \<lparr>template = ConditionResponse, wording = approach_value,
                          quoted_offer = None\<rparr>
              else Inr \<lparr>template = GeneralResponse, wording = approach_value,
                        quoted_offer = Some target\<rparr>)"

text \<open>
  \<open>generate_response\<close> receives the budget, but hands only the approach, the target
  price and the history to the fallback. \<open>model_reply\<close> is \<open>None\<close> when no model is
  configured, and otherwise the text of the model or the error of the call.
\<close>

datatype buyer_reply = ModelText string | Fallback fallback_response

definition generate_response ::
    "(py_error + string) option \<Rightarrow> string \<Rightarrow> int \<Rightarrow> int \<Rightarrow> ChatMessage list
       \<Rightarrow> py_error + buyer_reply" where
  "generate_response model_reply approach_text target budget chat_history =
     (case model_reply of
        Some (Inr text) \<Rightarrow> Inr (ModelText text)
      | _ \<Rightarrow> bind (get_fallback_response approach_text target chat_history)
                 (\<lambda>r. Inr (Fallback r)))"

section \<open>Market estimation (MarketIntelligence)\<close>

record category_info =
  cat_min :: int
  cat_max :: int
  cat_depreciation :: pyfloat

definition category_price_ranges :: "(string \<times> category_info) list" where
  "category_price_ranges =
     [(''Mobile Phones'',
         \<lparr>cat_min = 5000, cat_max = 150000, cat_depreciation = literal 2 10\<rparr>),
      (''Laptops & Computers'',
         \<lparr>cat_min = 15000, cat_max = 300000, cat_depreciation = literal 25 100\<rparr>),
      (''Cars'',
         \<lparr>cat_min = 100000, cat_max = 5000000, cat_depreciation = literal 15 100\<rparr>),
      (''Vehicles'',
         \<lparr>cat_min = 20000, cat_max = 200000, cat_depreciation = literal 18 100\<rparr>),
      (''Electronics'',
         \<lparr>cat_min = 2000, cat_max = 100000, cat_depreciation = literal 3 10\<rparr>),
      (''Gaming'',
         \<lparr>cat_min = 5000, cat_max = 80000, cat_depreciation = literal 2 10\<rparr>),
      (''Home & Garden'',
         \<lparr>cat_min = 1000, cat_max = 150000, cat_depreciation = literal 1 10\<rparr>)]"

text \<open>The band used for a category that the table does not list.\<close>

definition generic_category_info :: category_info where
  "generic_category_info =
     \<lparr>cat_min = 1000, cat_max = 100000, cat_depreciation = literal 2 10\<rparr>"

definition lookup_category :: "string \<Rightarrow> category_info" where
  "lookup_category category =
     (case map_of category_price_ranges category of
        None \<Rightarrow> generic_category_info
      | Some info \<Rightarrow> info)"

text \<open>
  The two keyword tables of \<open>_estimate_market_value\<close>, in the order in which the source
  writes them; a Python dictionary is iterated in that order.
\<close>

definition premium_multipliers :: "(string \<times> pyfloat) list" where
  "premium_multipliers =
     [(''apple'', literal 13 10), (''iphone'', literal 13 10), (''macbook'', literal 14 10),
      (''samsung'', literal 12 10), (''sony'', literal 12 10), (''lg'', literal 11 10),
      (''mercedes'', literal 15 10), (''bmw'', literal 14 10), (''audi'', literal 14 10),
      (''premium'', literal 12 10), (''pro'', literal 115 100), (''plus'', literal 11 10)]"

definition age_keywords :: "(string \<times> pyfloat) list" where
  "age_keywords =
     [(''2024'', literal 95 100), (''2023'', literal 85 100), (''2022'', literal 75 100),
      (''2021'', literal 65 100), (''new'', literal 1 1), (''old'', literal 7 10),
      (''vintage'', literal 5 10)]"

text \<open>
  The loop \<open>for key, value in table.items(): if key in text: ...; break\<close>: the value of
  the first key, in table order, that occurs in the text.
\<close>

fun first_keyword :: "(string \<times> 'a) list \<Rightarrow> string \<Rightarrow> 'a option" where
  "first_keyword [] text = None"
| "first_keyword ((key, v) # rest) text =
     (if contains text key then Some v else first_keyword rest text)"

definition premium_multiplier :: "string \<Rightarrow> pyfloat" where
  "premium_multiplier title_lower =
     (case first_keyword premium_multipliers title_lower of
        None \<Rightarrow> literal 1 1
      | Some mult \<Rightarrow> float_max (literal 1 1) mult)"

definition age_factor :: "string \<Rightarrow> pyfloat" where
  "age_factor title_lower =
     (case first_keyword age_keywords title_lower of
        None \<Rightarrow> literal 8 10
      | Some factor \<Rightarrow> factor)"

definition estimate_market_value :: "string \<Rightarrow> string \<Rightarrow> int \<Rightarrow> py_error + int" where
  "estimate_market_value title category current_price =
     (let info = lookup_category category
      in bind (int_truediv (cat_min info + cat_max info) 2) (\<lambda>category_median.
         let title_lower = lower title;
             multiplier = premium_multiplier title_lower;
             factor = age_factor title_lower
         in bind (int_of_float (float_mul (float_mul category_median multiplier) factor))
              (\<lambda>estimated_value.
         bind (if cat_min info \<le> current_price
                 then bind (int_mul_float (cat_max info) (literal 15 10)) (\<lambda>upper.
                        if int_le_float current_price upper
                          then bind (int_truediv (estimated_value + current_price) 2)
                                 int_of_float
                        else Inr estimated_value)
               else Inr estimated_value)
              (\<lambda>estimated_value.
         Inr (max (cat_min info) (min estimated_value (cat_max info)))))))"

definition year_keywords :: "(string \<times> int) list" where
  "year_keywords =
     [(''2020'', 2020), (''2021'', 2021), (''2022'', 2022), (''2023'', 2023),
      (''2024'', 2024), (''2025'', 2025)]"

definition calculate_depreciation :: "string \<Rightarrow> string \<Rightarrow> pyfloat" where
  "calculate_depreciation title category =
     (let base_depreciation = cat_depreciation (lookup_category category);
          title_lower = lower title
      in case first_keyword year_keywords title_lower of
           Some year \<Rightarrow>
             float_min (float_mul base_depreciation (Finite (2025 - year) 0)) (literal 8 10)
         | None \<Rightarrow> float_mul base_depreciation (Finite 2 0))"

definition analyze_pricing_patterns ::
    "int \<Rightarrow> int \<Rightarrow> category_info \<Rightarrow> py_error + string list" where
  "analyze_pricing_patterns current_price estimated_value info =
     bind (int_truediv (current_price - estimated_value) estimated_value) (\<lambda>q.
     let price_vs_estimate = float_mul q (Finite 100 0);
         first_insight =
           (if float_less (Finite 25 0) price_vs_estimate
              then ''Significantly overpriced - strong negotiation potential''
            else if float_less (Finite 10 0) price_vs_estimate
              then ''Moderately overpriced - good negotiation room''
            else if float_less price_vs_estimate (Finite (- 10) 0)
              then ''Below market value - may indicate urgency or condition issues''
            else ''Reasonably priced according to market standards'')
     in bind (int_mul_float (cat_min info) (literal 12 10)) (\<lambda>low.
        if float_less (Finite current_price 0) low
          then Inr [first_insight, ''Price at lower end of category range'']
        else bind (int_mul_float (cat_max info) (literal 8 10)) (\<lambda>high.
          if float_less high (Finite current_price 0)
            then Inr [first_insight, ''Price at higher end of category range'']
          else Inr [first_insight])))"

definition position_of_ratio :: "pyfloat \<Rightarrow> string" where
  "position_of_ratio ratio =
     (if float_less (literal 13 10) ratio then ''premium_priced''
      else if float_less (literal 11 10) ratio then ''above_market''
      else if float_less ratio (literal 8 10) then ''below_market''
      else if float_less ratio (literal 9 10) then ''competitive''
      else ''market_average'')"

definition determine_market_position :: "int \<Rightarrow> int \<Rightarrow> py_error + string" where
  "determine_market_position current_price estimated_value =
     bind (if 0 < estimated_value then int_truediv current_price estimated_value
           else Inr (Finite 1 0))
       (\<lambda>ratio. Inr (position_of_ratio ratio))"

definition assess_negotiation_potential :: "int \<Rightarrow> int \<Rightarrow> py_error + pyfloat" where
  "assess_negotiation_potential current_price estimated_value =
     (if estimated_value \<le> 0 then Inr (literal 15 100)
      else bind (int_truediv (current_price - estimated_value) estimated_value) (\<lambda>q.
           let overpricing = float_max (Finite 0 0) q;
               potential = float_add (literal 1 10) (float_mul overpricing (literal 5 10))
           in Inr (float_min potential (literal 3 10))))"

record market_analysis =
  estimated_market_value :: int
  category_price_range :: category_info
  vs_category_min :: pyfloat
  vs_category_max :: pyfloat
  vs_estimated_value :: pyfloat
  depreciation_factor :: pyfloat
  price_insights :: "string list"
  market_position :: string
  negotiation_potential :: pyfloat

text \<open>\<open>((a - b) / b) * 100\<close> on integers.\<close>

definition percent_above :: "int \<Rightarrow> int \<Rightarrow> py_error + pyfloat" where
  "percent_above a b =
     bind (int_truediv (a - b) b) (\<lambda>q. Inr (float_mul q (Finite 100 0)))"

definition market_price_analysis :: "string \<Rightarrow> string \<Rightarrow> int \<Rightarrow> py_error + market_analysis" where
  "market_price_analysis product_title category current_price =
     (let info = lookup_category category
      in bind (estimate_market_value product_title category current_price) (\<lambda>estimated.
         let depreciation = calculate_depreciation product_title category
         in bind (analyze_pricing_patterns current_price estimated info) (\<lambda>insights.
            bind (percent_above current_price (cat_min info)) (\<lambda>vs_min.
            bind (percent_above current_price (cat_max info)) (\<lambda>vs_max.
            bind (percent_above current_price estimated) (\<lambda>vs_estimate.
            bind (determine_market_position current_price estimated) (\<lambda>position.
            bind (assess_negotiation_potential current_price estimated) (\<lambda>potential.
            Inr \<lparr>estimated_market_value = estimated,
                 category_price_range = info,
                 vs_category_min = vs_min,
                 vs_category_max = vs_max,
                 vs_estimated_value = vs_estimate,
                 depreciation_factor = depreciation,
                 price_insights = insights,
                 market_position = position,
                 negotiation_potential = potential\<rparr>))))))))"

text \<open>
  \<open>_get_fallback_market_analysis\<close>: the estimate is the category median, a float; the
  market position is computed from the listed price and that float.
\<close>

definition get_fallback_market_analysis :: "int \<Rightarrow> string \<Rightarrow> py_error + market_analysis" where
  "get_fallback_market_analysis current_price category =
     (let info = lookup_category category
      in bind (int_truediv (cat_min info + cat_max info) 2) (\<lambda>estimated_value.
         bind (int_of_float estimated_value) (\<lambda>estimated.
         bind (percent_above current_price (cat_min info)) (\<lambda>vs_min.
         bind (percent_above current_price (cat_max info)) (\<lambda>vs_max.
         bind (float_of_int current_price) (\<lambda>price.
         bind (float_div (float_sub price estimated_value) estimated_value) (\<lambda>q.
         bind (if float_less (Finite 0 0) estimated_value
                 then float_div price estimated_value else Inr (Finite 1 0)) (\<lambda>ratio.
         Inr \<lparr>estimated_market_value = estimated,
              category_price_range = info,
              vs_category_min = vs_min,
              vs_category_max = vs_max,
              vs_estimated_value = float_mul q (Finite 100 0),
              depreciation_factor = literal 2 10,
              price_insights = [''Market analysis based on category averages''],
              market_position = position_of_ratio ratio,
              negotiation_potential = literal 15 100\<rparr>))))))))"

text \<open>\<open>analyze_market_price\<close>: the analysis, and on any exception the fallback analysis.\<close>

definition analyze_market_price :: "string \<Rightarrow> string \<Rightarrow> int \<Rightarrow> py_error + market_analysis" where
  "analyze_market_price product_title category current_price =
     (case market_price_analysis product_title category current_price of
        Inr result \<Rightarrow> Inr result
      | Inl err \<Rightarrow> get_fallback_market_analysis current_price category)"

text \<open>
  What the proofs below need of every band of the table and of the generic band: it is
  positive and ordered, and its median, as the source computes it, is a non-zero float
  whose integer part lies in the band.
\<close>

definition all_category_infos :: "category_info list" where
  "all_category_infos = generic_category_info # map snd category_price_ranges"

definition band_ok :: "category_info \<Rightarrow> bool" where
  "band_ok info =
     (0 < cat_min info \<and> cat_min info \<le> cat_max info \<and> cat_max info \<le> 2 ^ 23
      \<and> (case int_truediv (cat_min info + cat_max info) 2 of
           Inr (Finite m e) \<Rightarrow>
             m \<noteq> 0 \<and> (case int_of_float (Finite m e) of
                          Inr v \<Rightarrow> cat_min info \<le> v \<and> v \<le> cat_max info
                        | Inl err \<Rightarrow> False)
         | _ \<Rightarrow> False))"

section \<open>Decision orchestration (EnhancedAIService.make_negotiation_decision)\<close>



subsection \<open>The LangChain agent stage\<close>







subsection \<open>The Gemini enhancement\<close>






subsection \<open>The negotiation context\<close>






subsection \<open>The chain of decision sources\<close>








section \<open>Properties of the string helpers\<close>



section \<open>Phase classification: the closing lexicon\<close>




section \<open>Tactic selection: the gap thresholds\<close>

text \<open>
  Claim C8. The tactic selector compares the gap with \<open>> 30\<close> and then with \<open>> 15\<close>:
  a gap above 30 gives anchoring, alternative_options, market_comparison; a gap above 15
  and up to 30 gives reciprocal_concessions, value_proposition, rapport_building; a gap
  of 15 or less gives final_offer, commitment_seeking, minor_concessions. Then
  deadline_leverage is appended when the lower-cased seller message contains an urgency
  keyword, and after it creative_solutions when it contains a flexibility keyword.
\<close>

theorem strategy_tool_tactics:
  "tactics (NegotiationStrategyTool_run seller_message negotiation_phase gap) =
     (if gap > 30 then [''anchoring'', ''alternative_options'', ''market_comparison'']
      else if gap > 15
        then [''reciprocal_concessions'', ''value_proposition'', ''rapport_building'']
      else [''final_offer'', ''commitment_seeking'', ''minor_concessions''])
     @ (if any_in urgency_indicators (lower seller_message)
          then [''deadline_leverage''] else [])
     @ (if any_in flexibility_indicators (lower seller_message)
          then [''creative_solutions''] else [])"
  by (simp add: NegotiationStrategyTool_run_def gap_tactics_def Let_def)

theorem strategy_tool_tactics_witness:
  "tactics (NegotiationStrategyTool_run ''This is my FINAL price, but we can discuss''
      ''bargaining'' 30) =
   [''reciprocal_concessions'', ''value_proposition'', ''rapport_building'',
    ''deadline_leverage'', ''creative_solutions'']"
  unfolding strategy_tool_tactics by code_simp

text \<open>A gap of exactly 15 is answered with the closing tactics, not the collaborative ones.\<close>

theorem strategy_tool_gap_15_counterexample:
  "tactics (NegotiationStrategyTool_run ''ok'' ''bargaining'' 15) \<noteq>
     [''reciprocal_concessions'', ''value_proposition'', ''rapport_building'']
   \<and> tactics (NegotiationStrategyTool_run ''ok'' ''bargaining'' 15) =
     [''final_offer'', ''commitment_seeking'', ''minor_concessions'']"
  by code_simp

section \<open>Seller-behaviour analysis: the rejection scenario\<close>












text \<open>
  The other modules of the repository label seller messages \<open>seller\<close>, in lower case.
  Such a line does not start with \<open>Seller:\<close>, and the analysis passes over it.
\<close>

lemma lower_case_seller_label_ignored:
  "analyze_conversation [\<lparr>sender = ''seller'', content = firm_message\<rparr>] =
     \<lparr>price_mentions = [], seller_sentiment = ''neutral'', negotiation_stage = ''middle'',
      seller_tactics = []\<rparr>"
  by code_simp

section \<open>Session creation: what the request schema checks\<close>




section \<open>Fallback responses: the counter offer and the budget\<close>

lemma generate_response_ignores_budget:
  "generate_response model_reply approach_text target budget chat_history =
   generate_response model_reply approach_text target budget' chat_history"
  by (simp add: generate_response_def)

text \<open>
  Claim C5. With no model configured, a target price of 45000, a budget of 46000 and the
  seller answering \<open>No, it is firm\<close>, the fallback quotes
  \<open>min(int(45000 * 1.15), 45000 + 5000) = min(51749, 50000) = 50000\<close>,
  which is above the budget: the counter offer of the rejection branch is computed from
  the target price alone.
\<close>

theorem fallback_counter_offer_above_budget:
  "generate_response None ''diplomatic'' 45000 46000
     [\<lparr>sender = ''seller'', content = ''No, it is firm''\<rparr>]
   = Inr (Fallback \<lparr>template = RejectionResponse, wording = DIPLOMATIC,
                     quoted_offer = Some 50000\<rparr>)"
  by code_simp

section \<open>Market estimation: one premium multiplier\<close>




section \<open>Properties of the float operations\<close>

declare bit_length.simps [simp del]

lemma bit_length_nonneg: "0 \<le> bit_length n"
proof (induction n rule: bit_length.induct)
  case (1 n)
  then show ?case by (cases "n \<le> 0") (simp_all add: bit_length.simps[of n])
qed

lemma bit_length_pos: "0 < n \<Longrightarrow> 1 \<le> bit_length n"
  using bit_length_nonneg[of "n div 2"] by (simp add: bit_length.simps[of n])

lemma bit_length_bounds:
  "0 < n \<Longrightarrow> 2 ^ nat (bit_length n - 1) \<le> n \<and> n < 2 ^ nat (bit_length n)"
proof (induction n rule: bit_length.induct)
  case (1 n)
  show ?case
  proof (cases "n = 1")
    case True
    then show ?thesis
      by (simp add: bit_length.simps[of 1] bit_length.simps[of 0])
  next
    case False
    with "1.prems" have h: "0 < n div 2" by simp
    then have ih: "2 ^ nat (bit_length (n div 2) - 1) \<le> n div 2"
        "n div 2 < 2 ^ nat (bit_length (n div 2))"
      using "1.IH" "1.prems" by simp_all
    have bl: "bit_length n = 1 + bit_length (n div 2)"
      using "1.prems" by (simp add: bit_length.simps[of n])
    have p: "1 \<le> bit_length (n div 2)" using h by (rule bit_length_pos)
    have e1: "nat (bit_length n - 1) = Suc (nat (bit_length (n div 2) - 1))"
      using bl p by simp
    have e2: "nat (bit_length n) = Suc (nat (bit_length (n div 2)))"
      using bl p by simp
    have "2 * 2 ^ nat (bit_length (n div 2) - 1) \<le> n"
      using ih(1) by linarith
    moreover have "n < 2 * 2 ^ nat (bit_length (n div 2))"
      using ih(2) by linarith
    ultimately show ?thesis by (simp add: e1 e2)
  qed
qed

lemma float_exponent_lower:
  assumes "0 < a" "0 < b" "0 \<le> float_exponent a b"
  shows "b * 2 ^ nat (float_exponent a b) \<le> a"
proof -
  define d where "d = bit_length a - bit_length b"
  show ?thesis
  proof (cases "b * 2 ^ nat d \<le> a * 2 ^ nat (- d)")
    case True
    then have e: "float_exponent a b = d" by (simp add: float_exponent_def d_def)
    with assms(3) have "nat (- d) = 0" by simp
    with True e show ?thesis by simp
  next
    case False
    then have e: "float_exponent a b = d - 1" by (simp add: float_exponent_def d_def)
    with assms(3) have d1: "1 \<le> d" by simp
    have ba: "2 ^ nat (bit_length a - 1) \<le> a" using bit_length_bounds[OF assms(1)] by simp
    have bb: "b < 2 ^ nat (bit_length b)" using bit_length_bounds[OF assms(2)] by simp
    have pb: "1 \<le> bit_length b" using assms(2) by (rule bit_length_pos)
    have "b * 2 ^ nat (d - 1) \<le> 2 ^ nat (bit_length b) * 2 ^ nat (d - 1)"
      using bb by (simp add: mult_right_mono)
    also have "\<dots> = 2 ^ (nat (bit_length b) + nat (d - 1))"
      by (simp add: power_add)
    also have "nat (bit_length b) + nat (d - 1) = nat (bit_length a - 1)"
      using d1 pb by (simp add: d_def)
    finally show ?thesis using ba e by simp
  qed
qed

lemma round_half_even_le:
  assumes "0 < d" "n \<le> k * d"
  shows "round_half_even n d \<le> k"
proof -
  have q: "n div d \<le> k"
    using assms by (metis zdiv_mono1 nonzero_mult_div_cancel_right less_irrefl)
  show ?thesis
  proof (cases "n div d = k")
    case True
    have "n = d * (n div d) + n mod d" by simp
    with True assms have "n mod d \<le> 0" by (metis add_le_same_cancel1 mult.commute)
    moreover have "0 \<le> n mod d" using assms(1) by simp
    ultimately have "n mod d = 0" by simp
    then show ?thesis using True assms(1) by (simp add: round_half_even_def Let_def)
  next
    case False
    with q have "n div d + 1 \<le> k" by simp
    then show ?thesis by (simp add: round_half_even_def Let_def)
  qed
qed

lemma round_half_even_nonneg: "0 < d \<Longrightarrow> 0 \<le> n \<Longrightarrow> 0 \<le> round_half_even n d"
  by (simp add: round_half_even_def Let_def pos_imp_zdiv_nonneg_iff)

lemma round_to_double_within:
  assumes "0 < b" "\<bar>a\<bar> \<le> 2 ^ k * b" "k \<le> 1023"
  shows "within_pow2 (round_to_double a b) k"
proof (cases "a = 0")
  case True
  then show ?thesis by (simp add: round_to_double_def within_pow2_def)
next
  case False
  define A where "A = \<bar>a\<bar>"
  define e where "e = float_exponent A b"
  define p where "p = max (e - 52) (- 1074)"
  define m where "m = round_half_even (A * 2 ^ nat (- p)) (b * 2 ^ nat p)"
  have A: "0 < A" using False by (simp add: A_def)
  have D: "0 < b * 2 ^ nat p" using assms(1) by simp
  have m0: "0 \<le> m"
    unfolding m_def using D A by (intro round_half_even_nonneg) simp_all
  have top: "(2::int) ^ k \<le> 2 ^ 1023"
    using assms(3) by (intro power_increasing) simp_all
  have bound: "m * 2 ^ nat p \<le> 2 ^ k * 2 ^ nat (- p)"
  proof (cases "p \<le> 0")
    case True
    have "A * 2 ^ nat (- p) \<le> (2 ^ k * 2 ^ nat (- p)) * (b * 2 ^ nat p)"
      using assms(2) True by (simp add: A_def mult_right_mono)
    then have "m \<le> 2 ^ k * 2 ^ nat (- p)"
      unfolding m_def using D by (intro round_half_even_le)
    then show ?thesis using True by simp
  next
    case False
    then have p: "p = e - 52" "0 \<le> e" "nat (- p) = 0" "nat p \<le> nat e"
      by (simp_all add: p_def)
    have "b * 2 ^ nat e \<le> A"
      using float_exponent_lower[OF A assms(1)] p(2) by (simp add: e_def)
    also have "\<dots> \<le> 2 ^ k * b" using assms(2) by (simp add: A_def)
    finally have "(2::int) ^ nat e \<le> 2 ^ k" using assms(1) by simp
    then have "nat e \<le> k" by simp
    then have pk: "nat p \<le> k" using p(4) by simp
    have "(2::int) ^ (k - nat p) * 2 ^ nat p = 2 ^ k"
      using pk by (simp flip: power_add)
    then have eq: "2 ^ (k - nat p) * (b * 2 ^ nat p) = 2 ^ k * b"
      by (simp add: mult.assoc mult.left_commute mult.commute)
    have "A * 2 ^ nat (- p) \<le> 2 ^ (k - nat p) * (b * 2 ^ nat p)"
      using assms(2) p(3) by (simp add: eq A_def)
    then have "m \<le> 2 ^ (k - nat p)"
      unfolding m_def using D by (intro round_half_even_le)
    then have "m * 2 ^ nat p \<le> 2 ^ (k - nat p) * 2 ^ nat p"
      by (simp add: mult_right_mono)
    also have "\<dots> = 2 ^ k" using pk by (simp flip: power_add)
    finally show ?thesis using p(3) by simp
  qed
  have no_overflow: "\<not> (0 \<le> p \<and> 2 ^ 1024 \<le> m * 2 ^ nat p)"
  proof
    assume h: "0 \<le> p \<and> 2 ^ 1024 \<le> m * 2 ^ nat p"
    then have "nat (- p) = 0" by simp
    with bound have "m * 2 ^ nat p \<le> 2 ^ k" by simp
    with top h have "(2::int) ^ 1024 \<le> 2 ^ 1023" by linarith
    then show False by simp
  qed
  have "round_to_double a b =
          (if 0 \<le> p \<and> 2 ^ 1024 \<le> m * 2 ^ nat p
             then (if 0 < a then PosInf else NegInf)
           else Finite (sgn a * m) p)"
    unfolding round_to_double_def Let_def m_def p_def e_def A_def
    by (rule if_not_P[OF False])
  then have res: "round_to_double a b = Finite (sgn a * m) p"
    by (simp only: if_not_P[OF no_overflow])
  have "\<bar>sgn a * m\<bar> = m" using False m0 by (simp add: abs_mult)
  then show ?thesis using bound by (simp add: res within_pow2_def)
qed


lemma within_pow2_Finite:
  "within_pow2 x k \<Longrightarrow> \<exists>m e. x = Finite m e"
  by (cases x) (simp_all add: within_pow2_def)

lemma float_of_int_within:
  assumes "\<bar>n\<bar> \<le> 2 ^ k" "k \<le> 1023"
  shows "\<exists>x. float_of_int n = Inr x \<and> within_pow2 x k"
proof -
  have w: "within_pow2 (round_to_double n 1) k"
    using assms by (intro round_to_double_within) simp_all
  then obtain m e where "round_to_double n 1 = Finite m e"
    using within_pow2_Finite by blast
  with w show ?thesis by (simp add: float_of_int_def)
qed

lemma int_truediv_within:
  assumes "b \<noteq> 0" "\<bar>a\<bar> \<le> 2 ^ k * \<bar>b\<bar>" "k \<le> 1023"
  shows "\<exists>x. int_truediv a b = Inr x \<and> within_pow2 x k"
proof -
  have "\<bar>a * sgn b\<bar> = \<bar>a\<bar>" using assms(1) by (simp add: abs_mult)
  then have w: "within_pow2 (round_to_double (a * sgn b) \<bar>b\<bar>) k"
    using assms by (intro round_to_double_within) simp_all
  then obtain m e where "round_to_double (a * sgn b) \<bar>b\<bar> = Finite m e"
    using within_pow2_Finite by blast
  with w assms(1) show ?thesis by (simp add: int_truediv_def)
qed









section \<open>Offer strategy: the clamp\<close>





section \<open>Market estimation: the category band\<close>

lemma all_bands_ok: "list_all band_ok all_category_infos"
  by code_simp

lemma lookup_category_listed: "lookup_category category \<in> set all_category_infos"
  by (auto simp: lookup_category_def all_category_infos_def split: option.splits
      dest!: map_of_SomeD intro: rev_image_eqI)

lemma lookup_category_ok: "band_ok (lookup_category category)"
  using all_bands_ok lookup_category_listed by (auto simp: list_all_iff)

lemma estimate_market_value_band:
  assumes "estimate_market_value title category current_price = Inr v"
  shows "cat_min (lookup_category category) \<le> v \<and> v \<le> cat_max (lookup_category category)"
proof -
  have ord: "cat_min (lookup_category category) \<le> cat_max (lookup_category category)"
    using lookup_category_ok[of category] by (simp add: band_ok_def)
  from assms obtain est
    where "v = max (cat_min (lookup_category category))
                   (min est (cat_max (lookup_category category)))"
    by (auto simp: estimate_market_value_def bind_def Let_def split: sum.splits if_splits)
  with ord show ?thesis by simp
qed

lemma market_price_analysis_fields:
  assumes "market_price_analysis title category current_price = Inr result"
  shows "category_price_range result = lookup_category category
         \<and> estimate_market_value title category current_price
             = Inr (estimated_market_value result)"
  using assms
  by (auto simp: market_price_analysis_def bind_def Let_def split: sum.splits)

lemma fallback_market_analysis_fields:
  assumes "get_fallback_market_analysis current_price category = Inr result"
  shows "category_price_range result = lookup_category category
         \<and> cat_min (lookup_category category) \<le> estimated_market_value result
         \<and> estimated_market_value result \<le> cat_max (lookup_category category)"
proof -
  let ?info = "lookup_category category"
  from lookup_category_ok[of category] obtain m e v
    where med: "int_truediv (cat_min ?info + cat_max ?info) 2 = Inr (Finite m e)"
      and v: "int_of_float (Finite m e) = Inr v" "cat_min ?info \<le> v" "v \<le> cat_max ?info"
    by (auto simp: band_ok_def split: sum.splits pyfloat.splits)
  from assms have "category_price_range result = ?info \<and> estimated_market_value result = v"
    unfolding get_fallback_market_analysis_def Let_def
    by (auto simp: bind_def med v(1) simp del: int_of_float.simps split: sum.splits)
  with v show ?thesis by simp
qed

lemma float_div_returns:
  "m \<noteq> 0 \<Longrightarrow> \<exists>q. float_div x (Finite m e) = Inr q"
  by (cases x) simp_all

lemma percent_above_returns:
  assumes "\<bar>a\<bar> \<le> 2 ^ 1000" "0 < b" "b \<le> 2 ^ 23"
  shows "\<exists>q. percent_above a b = Inr q"
proof -
  have "\<bar>a - b\<bar> \<le> \<bar>a\<bar> + \<bar>b\<bar>" by simp
  also have "\<dots> \<le> 2 ^ 1000 + 2 ^ 23" using assms by simp
  also have "\<dots> \<le> (2::int) ^ 1001" by simp
  also have "\<dots> \<le> 2 ^ 1001 * \<bar>b\<bar>" using assms(2) by simp
  finally have "\<bar>a - b\<bar> \<le> 2 ^ 1001 * \<bar>b\<bar>" .
  moreover have "b \<noteq> 0" using assms(2) by simp
  ultimately obtain x where "int_truediv (a - b) b = Inr x"
    using int_truediv_within[of b "a - b" 1001] by auto
  then show ?thesis by (simp add: percent_above_def bind_def)
qed

lemma fallback_market_analysis_returns:
  assumes "\<bar>current_price\<bar> \<le> 2 ^ 1000"
  shows "\<exists>result. get_fallback_market_analysis current_price category = Inr result"
proof -
  let ?info = "lookup_category category"
  have ok: "0 < cat_min ?info" "cat_min ?info \<le> cat_max ?info" "cat_max ?info \<le> 2 ^ 23"
    using lookup_category_ok[of category] by (simp_all add: band_ok_def)
  from lookup_category_ok[of category] obtain m e v
    where med: "int_truediv (cat_min ?info + cat_max ?info) 2 = Inr (Finite m e)"
      and m: "m \<noteq> 0"
      and v: "int_of_float (Finite m e) = Inr v"
    by (auto simp: band_ok_def split: sum.splits pyfloat.splits)
  obtain q1 where q1: "percent_above current_price (cat_min ?info) = Inr q1"
    using percent_above_returns[OF assms ok(1)] ok by auto
  obtain q2 where q2: "percent_above current_price (cat_max ?info) = Inr q2"
    using percent_above_returns[OF assms, of "cat_max ?info"] ok by auto
  obtain price where price: "float_of_int current_price = Inr price"
    using float_of_int_within[OF assms] by auto
  obtain q3 where q3: "float_div (float_sub price (Finite m e)) (Finite m e) = Inr q3"
    using float_div_returns[OF m] by blast
  obtain q4 where q4: "float_div price (Finite m e) = Inr q4"
    using float_div_returns[OF m] by blast
  show ?thesis
    unfolding get_fallback_market_analysis_def Let_def
    by (simp add: bind_def med v q1 q2 price q3 q4 del: int_of_float.simps float_div.simps)
qed

text \<open>
  Claim C9. Whenever the market-price analysis returns a result, by the analysis itself or
  by its fallback, the estimated market value lies within the band of the category, which
  is the generic band from 1000 to 100000 when the table does not list the category. It
  returns a result, without raising, for every title, every category and every listed
  price of magnitude at most \<open>2 ^ 1000\<close>.
\<close>

theorem market_analysis_within_band:
  "(\<forall>result. analyze_market_price title category current_price = Inr result \<longrightarrow>
        category_price_range result = lookup_category category
      \<and> cat_min (lookup_category category) \<le> estimated_market_value result
      \<and> estimated_market_value result \<le> cat_max (lookup_category category))
   \<and> (map_of category_price_ranges category = None \<longrightarrow>
        cat_min (lookup_category category) = 1000
      \<and> cat_max (lookup_category category) = 100000)
   \<and> (\<bar>current_price\<bar> \<le> 2 ^ 1000 \<longrightarrow>
        (\<exists>result. analyze_market_price title category current_price = Inr result))"
proof (intro conjI allI impI)
  fix result
  assume r: "analyze_market_price title category current_price = Inr result"
  have "category_price_range result = lookup_category category
        \<and> cat_min (lookup_category category) \<le> estimated_market_value result
        \<and> estimated_market_value result \<le> cat_max (lookup_category category)"
  proof (cases "market_price_analysis title category current_price")
    case (Inl err)
    with r have "get_fallback_market_analysis current_price category = Inr result"
      by (simp add: analyze_market_price_def)
    then show ?thesis by (rule fallback_market_analysis_fields)
  next
    case (Inr analysed)
    with r have "market_price_analysis title category current_price = Inr result"
      by (simp add: analyze_market_price_def)
    from market_price_analysis_fields[OF this] show ?thesis
      using estimate_market_value_band by blast
  qed
  then show "category_price_range result = lookup_category category"
    and "cat_min (lookup_category category) \<le> estimated_market_value result"
    and "estimated_market_value result \<le> cat_max (lookup_category category)"
    by simp_all
next
  assume "map_of category_price_ranges category = None"
  then show "cat_min (lookup_category category) = 1000"
    and "cat_max (lookup_category category) = 100000"
    by (simp_all add: lookup_category_def generic_category_info_def)
next
  assume "\<bar>current_price\<bar> \<le> 2 ^ 1000"
  then obtain fallback_result
    where "get_fallback_market_analysis current_price category = Inr fallback_result"
    using fallback_market_analysis_returns by blast
  then show "\<exists>result. analyze_market_price title category current_price = Inr result"
    by (cases "market_price_analysis title category current_price")
       (simp_all add: analyze_market_price_def)
qed

theorem market_analysis_within_band_witness:
  "\<bar>65000 :: int\<bar> \<le> 2 ^ 1000
   \<and> map_of category_price_ranges ''Furniture'' = None
   \<and> (\<exists>result. analyze_market_price ''Teak sofa'' ''Furniture'' 65000 = Inr result
         \<and> 1000 \<le> estimated_market_value result
         \<and> estimated_market_value result \<le> 100000)"
proof -
  have h: "\<bar>65000 :: int\<bar> \<le> 2 ^ 1000"
    by simp
  have u: "map_of category_price_ranges ''Furniture'' = None"
    by (simp add: category_price_ranges_def)
  from market_analysis_within_band[of "''Teak sofa''" "''Furniture''" 65000] h u
  show ?thesis
    by (metis (no_types, lifting))
qed

text \<open>
  A listed price of \<open>2 ^ 1100\<close>: the quotient \<open>(price - estimate) / estimate\<close> is too large
  for a float, the analysis raises, and so does the same kind of quotient in the fallback.
\<close>

theorem market_analysis_overflow_counterexample:
  "analyze_market_price ''x'' ''Other'' (2 ^ 1100) = Inl OverflowError"
proof -
  have e: "estimate_market_value ''x'' ''Other'' (2 ^ 1100) = Inr 40400"
    by code_simp
  have a: "analyze_pricing_patterns (2 ^ 1100) 40400 (lookup_category ''Other'')
             = Inl OverflowError"
    by code_simp
  have main: "market_price_analysis ''x'' ''Other'' (2 ^ 1100) = Inl OverflowError"
    by (simp only: market_price_analysis_def Let_def bind_def e a sum.case)
  from lookup_category_ok[of "''Other''"] obtain m e v
    where med: "int_truediv (cat_min (lookup_category ''Other'')
                  + cat_max (lookup_category ''Other'')) 2 = Inr (Finite m e)"
      and v: "int_of_float (Finite m e) = Inr v"
    by (auto simp: band_ok_def split: sum.splits pyfloat.splits)
  have p: "percent_above (2 ^ 1100) (cat_min (lookup_category ''Other'')) = Inl OverflowError"
    by code_simp
  have "get_fallback_market_analysis (2 ^ 1100) ''Other'' = Inl OverflowError"
    by (simp only: get_fallback_market_analysis_def Let_def bind_def med v p sum.case)
  with main show ?thesis
    by (simp only: analyze_market_price_def sum.case)
qed


section \<open>Offer strategy: the order of the stages\<close>

text \<open>
  With a listed price far below the target the middle stage falls back to the target
  price, below the opening offer.
\<close>

lemma middle_offer_below_opening_offer:
  "PriceCalculatorTool_run 10 100 200 2 = SuggestedOffer 110
   \<and> PriceCalculatorTool_run 10 100 200 3 = SuggestedOffer 100"
  by code_simp

text \<open>
  Claim C3. With a target price of 45000, a budget of 55000 and a listed price of 60000,
  the calculator offers 49500 in the opening stage and 55000 in the middle stage, where
  \<open>0.6 * (45000 + 60000) = 63000\<close> is cut to the budget; in the closing stage it offers
  \<open>min(0.95 * 55000, 0.7 * 105000) = 52250\<close>, less than one stage before.
\<close>

theorem closing_offer_below_middle_offer:
  "(45000::int) < 55000
   \<and> PriceCalculatorTool_run 60000 45000 55000 2 = SuggestedOffer 49500
   \<and> PriceCalculatorTool_run 60000 45000 55000 4 = SuggestedOffer 55000
   \<and> PriceCalculatorTool_run 60000 45000 55000 5 = SuggestedOffer 52250
   \<and> (52250::int) < 55000"
  by code_simp

section \<open>Decision orchestration: a decision is always produced\<close>








end
